theory Spec2Isabelle
  imports Complex_Main
begin

section \<open>Vectors and matrices (the numpy operations the aligners use)\<close>

text \<open>
  Coordinates are Python and numpy floats (binary64); they are modelled as real
  numbers. Two things are kept from floating-point arithmetic. The division
  \<open>0.0 / 0.0\<close> of numpy arrays does not raise but yields NaN (with a warning): it is
  the value \<open>None\<close> of an option type, see \<open>normalized\<close>. And the rotation solver,
  whose result turns on whether a cross product is exactly zero, is modelled only for
  direction vectors on which binary64 and real arithmetic agree exactly, see
  \<open>direction\<close>.
\<close>

type_synonym vec3 = "real \<times> real \<times> real"

text \<open>A 3x3 matrix is the triple of its rows.\<close>

type_synonym mat3 = "vec3 \<times> vec3 \<times> vec3"

fun vadd :: "vec3 \<Rightarrow> vec3 \<Rightarrow> vec3" where
  "vadd (a1, a2, a3) (b1, b2, b3) = (a1 + b1, a2 + b2, a3 + b3)"

fun vsub :: "vec3 \<Rightarrow> vec3 \<Rightarrow> vec3" where
  "vsub (a1, a2, a3) (b1, b2, b3) = (a1 - b1, a2 - b2, a3 - b3)"

fun vneg :: "vec3 \<Rightarrow> vec3" where
  "vneg (a1, a2, a3) = (- a1, - a2, - a3)"

fun vscale :: "real \<Rightarrow> vec3 \<Rightarrow> vec3" where
  "vscale s (a1, a2, a3) = (s * a1, s * a2, s * a3)"

fun dot :: "vec3 \<Rightarrow> vec3 \<Rightarrow> real" where
  "dot (a1, a2, a3) (b1, b2, b3) = a1 * b1 + a2 * b2 + a3 * b3"

text \<open>\<open>np.cross\<close>.\<close>

fun cross :: "vec3 \<Rightarrow> vec3 \<Rightarrow> vec3" where
  "cross (a1, a2, a3) (b1, b2, b3) =
     (a2 * b3 - a3 * b2, a3 * b1 - a1 * b3, a1 * b2 - a2 * b1)"

text \<open>\<open>np.linalg.norm\<close> of a vector.\<close>

definition linalg_norm :: "vec3 \<Rightarrow> real" where
  "linalg_norm v = sqrt (dot v v)"

text \<open>
  The expression \<open>v / np.linalg.norm(v)\<close>, as the rotation solver uses it. There it is
  applied to axis directions and to cross products of two axis directions, that is to
  vectors with components 0, 1 or -1 of which at most one is not 0. For such a vector
  the binary64 computation is exact: the norm is exactly 1 and the quotient is the
  vector itself, or the norm is exactly 0 and every component is \<open>0.0 / 0.0\<close>, that is
  NaN. \<open>None\<close> stands for the vector whose three components are NaN. A NaN operand
  makes every sum and product NaN, so a cross product with such a vector, and a matrix
  product with a matrix that has such a column, have NaN in every entry; \<open>None\<close> is
  used for them as well.
\<close>

definition normalized :: "vec3 \<Rightarrow> vec3 option" where
  "normalized v =
     (if linalg_norm v = 0 then None else Some (vscale (1 / linalg_norm v) v))"

text \<open>\<open>np.column_stack\<close> of three vectors: they become the columns.\<close>

fun column_stack :: "vec3 \<Rightarrow> vec3 \<Rightarrow> vec3 \<Rightarrow> mat3" where
  "column_stack (a1, a2, a3) (b1, b2, b3) (c1, c2, c3) =
     ((a1, b1, c1), (a2, b2, c2), (a3, b3, c3))"

text \<open>The transpose \<open>M.T\<close>.\<close>

fun mat_T :: "mat3 \<Rightarrow> mat3" where
  "mat_T (r1, r2, r3) = column_stack r1 r2 r3"

fun mat_vec :: "mat3 \<Rightarrow> vec3 \<Rightarrow> vec3" where
  "mat_vec (r1, r2, r3) v = (dot r1 v, dot r2 v, dot r3 v)"

fun vec_mat :: "vec3 \<Rightarrow> mat3 \<Rightarrow> vec3" where
  "vec_mat (a1, a2, a3) (r1, r2, r3) =
     vadd (vscale a1 r1) (vadd (vscale a2 r2) (vscale a3 r3))"

text \<open>The matrix product \<open>A @ B\<close>: row i of the product is row i of A times B.\<close>

fun matmul :: "mat3 \<Rightarrow> mat3 \<Rightarrow> mat3" where
  "matmul (r1, r2, r3) B = (vec_mat r1 B, vec_mat r2 B, vec_mat r3 B)"

definition identity3 :: mat3 where
  "identity3 = ((1, 0, 0), (0, 1, 0), (0, 0, 1))"

fun det3 :: "mat3 \<Rightarrow> real" where
  "det3 (r1, r2, r3) = dot r1 (cross r2 r3)"

definition distance :: "vec3 \<Rightarrow> vec3 \<Rightarrow> real" where
  "distance p q = linalg_norm (vsub p q)"

text \<open>Two directions are parallel when their cross product is the zero vector.\<close>

definition parallel :: "vec3 \<Rightarrow> vec3 \<Rightarrow> bool" where
  "parallel a b = (cross a b = (0, 0, 0))"

text \<open>
  Every direction vector that the aligners hand to the rotation solver is a constant
  array along a coordinate axis, such as \<open>np.array([0, 0, 1])\<close>: the estimated nose and
  up directions of \<open>detect_anatomical_features\<close> and the nose and up directions of
  \<open>anatomical_standard\<close>. A direction is one of the six signed axis directions, and
  \<open>vec_of\<close> is its array. On these arrays every intermediate value of the solver is 0,
  1 or -1, which binary64 computes exactly. For other direction vectors the solver's
  result depends on rounding (a cross product that is zero in exact arithmetic can
  leave a small residue, which the solver then normalises), and the solver is not
  modelled for them.
\<close>

datatype direction = X_pos | X_neg | Y_pos | Y_neg | Z_pos | Z_neg

fun vec_of :: "direction \<Rightarrow> vec3" where
  "vec_of X_pos = (1, 0, 0)"
| "vec_of X_neg = (- 1, 0, 0)"
| "vec_of Y_pos = (0, 1, 0)"
| "vec_of Y_neg = (0, - 1, 0)"
| "vec_of Z_pos = (0, 0, 1)"
| "vec_of Z_neg = (0, 0, - 1)"

fun opposite :: "direction \<Rightarrow> direction" where
  "opposite X_pos = X_neg"
| "opposite X_neg = X_pos"
| "opposite Y_pos = Y_neg"
| "opposite Y_neg = Y_pos"
| "opposite Z_pos = Z_neg"
| "opposite Z_neg = Z_pos"

text \<open>
  The matrix with columns right, up, nose, where up is re-derived as nose x right: the
  shape of \<open>from_matrix\<close> and \<open>to_matrix\<close> in \<open>calculate_rotation_matrix\<close>.
\<close>

definition frame :: "vec3 \<Rightarrow> vec3 \<Rightarrow> mat3" where
  "frame right nose = column_stack right (cross nose right) nose"

section \<open>The anatomical aligner (anatomical_aligner.py)\<close>

datatype py_error = ZeroDivisionError | IndexError

text \<open>
  The bounds tuple of VTK's \<open>GetBounds()\<close>: (xmin, xmax, ymin, ymax, zmin, zmax), six
  Python floats.
\<close>

type_synonym bounds6 = "real \<times> real \<times> real \<times> real \<times> real \<times> real"

fun x_range :: "bounds6 \<Rightarrow> real" where
  "x_range (b0, b1, b2, b3, b4, b5) = b1 - b0"

fun y_range :: "bounds6 \<Rightarrow> real" where
  "y_range (b0, b1, b2, b3, b4, b5) = b3 - b2"

fun z_range :: "bounds6 \<Rightarrow> real" where
  "z_range (b0, b1, b2, b3, b4, b5) = b5 - b4"

text \<open>
  The length of the diagonal of the bounding box, as \<open>analyze_ply_characteristics\<close>
  computes it from width, height and depth.
\<close>

definition bounding_diagonal :: "bounds6 \<Rightarrow> real" where
  "bounding_diagonal b = sqrt ((x_range b) ^ 2 + (y_range b) ^ 2 + (z_range b) ^ 2)"

text \<open>
  What the aligners read from the loaded VTK mesh: the points, the bounds that VTK
  reports, and for every point-data array its number of components and its name
  (\<open>None\<close> when \<open>GetName()\<close> returns nothing).
\<close>

record ply_mesh =
  points :: "vec3 list"
  mesh_bounds :: bounds6
  point_data :: "(nat \<times> string option) list"

text \<open>The constant \<open>anatomical_standard\<close> of \<open>AnatomicalAligner.__init__\<close>.\<close>

definition standard_center :: vec3 where
  "standard_center = (0.0, 0.0, 0.0)"

definition nose_direction :: direction where
  "nose_direction = Z_pos"

definition up_direction :: direction where
  "up_direction = Y_pos"

definition right_direction :: direction where
  "right_direction = X_pos"

fun coord :: "nat \<Rightarrow> vec3 \<Rightarrow> real" where
  "coord 0 (a1, a2, a3) = a1"
| "coord (Suc 0) (a1, a2, a3) = a2"
| "coord k (a1, a2, a3) = a3"

text \<open>
  \<open>vertices[np.argmin(vertices[:, k])]\<close> and its argmax twin: the first vertex at which
  coordinate k is least (greatest), found by one scan that keeps the earlier vertex on
  a tie.
\<close>

fun first_min :: "nat \<Rightarrow> vec3 \<Rightarrow> vec3 list \<Rightarrow> vec3" where
  "first_min k best [] = best"
| "first_min k best (v # vs) = first_min k (if coord k v < coord k best then v else best) vs"

fun first_max :: "nat \<Rightarrow> vec3 \<Rightarrow> vec3 list \<Rightarrow> vec3" where
  "first_max k best [] = best"
| "first_max k best (v # vs) = first_max k (if coord k best < coord k v then v else best) vs"

record extremal_points =
  x_min :: vec3
  x_max :: vec3
  y_min :: vec3
  y_max :: vec3
  z_min :: vec3
  z_max :: vec3

datatype orientation = standard | z_up | x_up | unknown

record anatomy_features =
  orientation_guess :: orientation
  estimated_nose_dir :: direction
  estimated_up_dir :: direction
  nose_candidate :: vec3
  head_top_candidate :: vec3
  extremes :: extremal_points
  dimensions :: vec3

text \<open>
  The orientation test of \<open>detect_anatomical_features\<close>, a chain of Python comparisons
  \<open>a > b > c\<close>, together with the nose and up directions chosen with it.
\<close>

definition guess_orientation :: "real \<Rightarrow> real \<Rightarrow> real \<Rightarrow> orientation \<times> direction \<times> direction" where
  "guess_orientation xr yr zr =
     (if yr > xr \<and> xr > zr then (standard, Z_pos, Y_pos)
      else if zr > yr \<and> yr > xr then (z_up, X_pos, Z_pos)
      else if xr > zr \<and> zr > yr then (x_up, Y_pos, X_pos)
      else (unknown, Z_pos, Y_pos))"

text \<open>
  \<open>detect_anatomical_features\<close>. Indexing \<open>vertices[:, 0]\<close> of an array without
  vertices raises IndexError. The sorted dimensions are only printed.
\<close>

definition detect_anatomical_features :: "vec3 list \<Rightarrow> bounds6 \<Rightarrow> py_error + anatomy_features" where
  "detect_anatomical_features vertices bounds =
     (case vertices of
        [] \<Rightarrow> Inl IndexError
      | v # vs \<Rightarrow>
          (let xr = x_range bounds; yr = y_range bounds; zr = z_range bounds;
               ex = \<lparr>x_min = first_min 0 v vs, x_max = first_max 0 v vs,
                     y_min = first_min 1 v vs, y_max = first_max 1 v vs,
                     z_min = first_min 2 v vs, z_max = first_max 2 v vs\<rparr>;
               (guess, nose_dir, up_dir) = guess_orientation xr yr zr;
               (nose_c, top_c) =
                 (if guess = standard then (z_max ex, y_max ex)
                  else if guess = z_up then (x_max ex, z_max ex)
                  else if guess = x_up then (y_max ex, x_max ex)
                  else (z_max ex, y_max ex))
           in Inr \<lparr>orientation_guess = guess, estimated_nose_dir = nose_dir,
                    estimated_up_dir = up_dir, nose_candidate = nose_c,
                    head_top_candidate = top_c, extremes = ex,
                    dimensions = (xr, yr, zr)\<rparr>))"

text \<open>
  \<open>np.mean(vertices, axis=0)\<close>: the mean of no vertices is NaN (numpy warns and goes
  on), written \<open>None\<close>.
\<close>

definition np_mean :: "vec3 list \<Rightarrow> vec3 option" where
  "np_mean vs =
     (if vs = [] then None
      else Some (vscale (1 / real (length vs)) (foldr vadd vs (0, 0, 0))))"

record ply_analysis =
  vertices :: "vec3 list"
  center :: vec3
  bounds :: bounds6
  anatomy :: anatomy_features

text \<open>
  \<open>analyze_ply_anatomy\<close>, after the file has been read. A mesh without vertices gets
  past the mean and fails in \<open>detect_anatomical_features\<close>.
\<close>

definition analyze_ply_anatomy :: "ply_mesh \<Rightarrow> py_error + ply_analysis" where
  "analyze_ply_anatomy mesh =
     (case detect_anatomical_features (points mesh) (mesh_bounds mesh) of
        Inl e \<Rightarrow> Inl e
      | Inr a \<Rightarrow>
          (case np_mean (points mesh) of
             None \<Rightarrow> Inl IndexError
           | Some c \<Rightarrow>
               Inr \<lparr>vertices = points mesh, center = c, bounds = mesh_bounds mesh,
                    anatomy = a\<rparr>))"

text \<open>
  \<open>calculate_rotation_matrix\<close>, for axis directions. The source has no test for a zero
  norm: the result of a division by a zero norm flows on, and the returned matrix then
  has NaN in every entry (\<open>None\<close>).
\<close>

definition calculate_rotation_matrix :: "direction \<Rightarrow> direction \<Rightarrow> direction \<Rightarrow> direction \<Rightarrow> mat3 option" where
  "calculate_rotation_matrix from_nose from_up to_nose to_up =
     (case (normalized (vec_of from_nose), normalized (vec_of from_up),
            normalized (vec_of to_nose), normalized (vec_of to_up)) of
        (Some from_nose1, Some from_up1, Some to_nose1, Some to_up1) \<Rightarrow>
          (case (normalized (cross from_up1 from_nose1), normalized (cross to_up1 to_nose1)) of
             (Some from_right, Some to_right) \<Rightarrow>
               (let from_up2 = cross from_nose1 from_right;
                    to_up2 = cross to_nose1 to_right;
                    from_matrix = column_stack from_right from_up2 from_nose1;
                    to_matrix = column_stack to_right to_up2 to_nose1
                in Some (matmul to_matrix (mat_T from_matrix)))
           | _ \<Rightarrow> None)
      | _ \<Rightarrow> None)"

record transform_params =
  translation :: vec3
  rotation_matrix :: "mat3 option"
  scale_factor :: real
  anatomy_guess :: orientation

definition target_face_height :: real where
  "target_face_height = 190.0"

text \<open>
  \<open>calculate_anatomical_transform\<close>. The bounds are Python floats, so dividing by a
  zero height raises ZeroDivisionError.
\<close>

definition calculate_anatomical_transform :: "ply_analysis \<Rightarrow> py_error + transform_params" where
  "calculate_anatomical_transform ply_analysis =
     (let current_center = center ply_analysis;
          anat = anatomy ply_analysis;
          translation = vneg current_center;
          rotation_matrix = calculate_rotation_matrix
            (estimated_nose_dir anat) (estimated_up_dir anat) nose_direction up_direction;
          current_face_height = y_range (bounds ply_analysis)
      in if \<bar>current_face_height\<bar> = 0 then Inl ZeroDivisionError
         else Inr \<lparr>translation = translation, rotation_matrix = rotation_matrix,
                   scale_factor = target_face_height / \<bar>current_face_height\<bar>,
                   anatomy_guess = orientation_guess anat\<rparr>)"

text \<open>
  The VTK transform built in \<open>apply_anatomical_alignment\<close>: in post-multiply mode,
  \<open>Translate\<close>, then \<open>Concatenate\<close> of the rotation, then \<open>Scale\<close>, so a point is first
  translated, then rotated, then scaled. A NaN rotation gives a NaN point.
\<close>

definition transform_point :: "transform_params \<Rightarrow> vec3 \<Rightarrow> vec3 option" where
  "transform_point tp p =
     (case rotation_matrix tp of
        None \<Rightarrow> None
      | Some R \<Rightarrow> Some (vscale (scale_factor tp) (mat_vec R (vadd p (translation tp)))))"

record alignment_result =
  result_params :: transform_params
  transformed_points :: "vec3 option list"

text \<open>
  \<open>apply_anatomical_alignment\<close> up to the transform filter. The cleaning of the mesh,
  the new normals, the written file and the printed bounds are VTK's work on the
  transformed points and are not part of the model.
\<close>

definition apply_anatomical_alignment :: "ply_mesh \<Rightarrow> py_error + alignment_result" where
  "apply_anatomical_alignment mesh =
     (case analyze_ply_anatomy mesh of
        Inl e \<Rightarrow> Inl e
      | Inr a \<Rightarrow>
          (case calculate_anatomical_transform a of
             Inl e \<Rightarrow> Inl e
           | Inr tp \<Rightarrow>
               Inr \<lparr>result_params = tp,
                    transformed_points = map (transform_point tp) (points mesh)\<rparr>))"

section \<open>The scale-free aligner (scale_free_aligner.py)\<close>

definition calculate_anatomical_transform_no_scale :: "ply_analysis \<Rightarrow> transform_params" where
  "calculate_anatomical_transform_no_scale ply_analysis =
     (let anat = anatomy ply_analysis;
          current_center = center ply_analysis;
          translation = vsub standard_center current_center;
          rotation_matrix = calculate_rotation_matrix
            (estimated_nose_dir anat) (estimated_up_dir anat) nose_direction up_direction
      in \<lparr>translation = translation, rotation_matrix = rotation_matrix,
           scale_factor = 1.0, anatomy_guess = orientation_guess anat\<rparr>)"

text \<open>
  The VTK transform of \<open>apply_scale_free_alignment\<close>: \<open>Translate\<close> and \<open>Concatenate\<close>
  only, no \<open>Scale\<close> call.
\<close>

definition transform_point_no_scale :: "transform_params \<Rightarrow> vec3 \<Rightarrow> vec3 option" where
  "transform_point_no_scale tp p =
     (case rotation_matrix tp of
        None \<Rightarrow> None
      | Some R \<Rightarrow> Some (mat_vec R (vadd p (translation tp))))"

definition apply_scale_free_alignment :: "ply_mesh \<Rightarrow> py_error + alignment_result" where
  "apply_scale_free_alignment mesh =
     (case analyze_ply_anatomy mesh of
        Inl e \<Rightarrow> Inl e
      | Inr a \<Rightarrow>
          (let tp = calculate_anatomical_transform_no_scale a
           in Inr \<lparr>result_params = tp,
                   transformed_points = map (transform_point_no_scale tp) (points mesh)\<rparr>))"

section \<open>Method selection (hybrid_scale_free_aligner.py)\<close>

text \<open>Python's \<open>str.lower\<close> and the substring test \<open>in\<close>, on ASCII names.\<close>

definition lower_char :: "char \<Rightarrow> char" where
  "lower_char c =
     (let n = (of_char c :: nat) in if 65 \<le> n \<and> n \<le> 90 then char_of (n + 32) else c)"

definition lower :: "string \<Rightarrow> string" where
  "lower s = map lower_char s"

fun starts_with :: "string \<Rightarrow> string \<Rightarrow> bool" where
  "starts_with s [] = True"
| "starts_with [] (p # ps) = False"
| "starts_with (c # cs) (p # ps) = (c = p \<and> starts_with cs ps)"

fun contains :: "string \<Rightarrow> string \<Rightarrow> bool" where
  "contains [] sub = (sub = [])"
| "contains (c # cs) sub = (starts_with (c # cs) sub \<or> contains cs sub)"

text \<open>The decimal digits of an index, for the default name \<open>Array_i\<close>.\<close>

function str_nat :: "nat \<Rightarrow> string" where
  "str_nat n =
     (if n < 10 then [char_of (48 + n)] else str_nat (n div 10) @ [char_of (48 + n mod 10)])"
  by pat_completeness auto
termination
  by (relation "measure id") auto

text \<open>
  The loop over the point-data arrays. The first test reads
  \<open>n_components >= 3 and 'color' in name or 'rgb' in name\<close>, in which \<open>and\<close> binds
  tighter than \<open>or\<close>. A flag that has been set stays set.
\<close>

fun scan_arrays :: "nat \<Rightarrow> (nat \<times> string option) list \<Rightarrow> bool \<times> bool \<Rightarrow> bool \<times> bool" where
  "scan_arrays i [] flags = flags"
| "scan_arrays i ((n_components, name) # rest) (has_colors, has_normals) =
     (let array_name =
            (case name of
               None \<Rightarrow> ''Array_'' @ str_nat i
             | Some s \<Rightarrow> if s = [] then ''Array_'' @ str_nat i else s);
          l = lower array_name
      in if (n_components \<ge> 3 \<and> contains l ''color'') \<or> contains l ''rgb''
         then scan_arrays (Suc i) rest (True, has_normals)
         else if n_components = 3 \<and> contains l ''normal''
         then scan_arrays (Suc i) rest (has_colors, True)
         else scan_arrays (Suc i) rest (has_colors, has_normals))"

record characteristics =
  n_points :: nat
  c_dimensions :: vec3
  c_center :: "vec3 option"
  diagonal :: real
  aspect_ratios :: vec3
  max_aspect_ratio :: real
  is_standard_face :: bool
  vertex_density :: real
  n_arrays :: nat
  has_colors :: bool
  has_normals :: bool

text \<open>
  \<open>analyze_ply_characteristics\<close>, after the file has been read. Width, height and depth
  are Python floats, so an aspect ratio with a zero denominator raises
  ZeroDivisionError; the density has its own guard.
\<close>

definition analyze_ply_characteristics :: "ply_mesh \<Rightarrow> py_error + characteristics" where
  "analyze_ply_characteristics mesh =
     (let n = length (points mesh);
          width = x_range (mesh_bounds mesh);
          height = y_range (mesh_bounds mesh);
          depth = z_range (mesh_bounds mesh);
          diag = bounding_diagonal (mesh_bounds mesh);
          (colors, normals) = scan_arrays 0 (point_data mesh) (False, False)
      in if min width height = 0 \<or> min width depth = 0 \<or> min height depth = 0
         then Inl ZeroDivisionError
         else
           (let r1 = max width height / min width height;
                r2 = max width depth / min width depth;
                r3 = max height depth / min height depth;
                max_r = max r1 (max r2 r3)
            in Inr \<lparr>n_points = n, c_dimensions = (width, height, depth),
                     c_center = np_mean (points mesh), diagonal = diag,
                     aspect_ratios = (r1, r2, r3), max_aspect_ratio = max_r,
                     is_standard_face = ((height > width \<and> width > depth) \<and> max_r < 2.0),
                     vertex_density = (if diag > 0 then real n / diag ^ 2 else 0),
                     n_arrays = length (point_data mesh),
                     has_colors = colors, has_normals = normals\<rparr>))"

datatype align_method = anatomical | ultimate

text \<open>The entries of the \<open>reasons\<close> list, one constructor for each message.\<close>

datatype reason =
    Standard_face_orientation | Non_standard_orientation
  | Good_proportions | Extreme_proportions
  | High_vertex_density | Low_vertex_density
  | Rich_data | Minimal_data
  | Standard_face_size | Unusual_size

record factors =
  anatomical_score :: int
  ultimate_score :: int
  reasons :: "reason list"

definition add_anatomical :: "int \<Rightarrow> reason \<Rightarrow> factors \<Rightarrow> factors" where
  "add_anatomical k r f =
     f\<lparr>anatomical_score := anatomical_score f + k, reasons := reasons f @ [r]\<rparr>"

definition add_ultimate :: "int \<Rightarrow> reason \<Rightarrow> factors \<Rightarrow> factors" where
  "add_ultimate k r f =
     f\<lparr>ultimate_score := ultimate_score f + k, reasons := reasons f @ [r]\<rparr>"

text \<open>\<open>select_optimal_method\<close>: five factors in the order of the source, then the decision.\<close>

definition select_optimal_method :: "characteristics \<Rightarrow> align_method \<times> factors" where
  "select_optimal_method analysis =
     (let f0 = \<lparr>anatomical_score = 0, ultimate_score = 0, reasons = []\<rparr>;
          f1 = (if is_standard_face analysis
                then add_anatomical 3 Standard_face_orientation f0
                else add_ultimate 2 Non_standard_orientation f0);
          f2 = (if max_aspect_ratio analysis < 1.5
                then add_anatomical 2 Good_proportions f1
                else if max_aspect_ratio analysis > 3.0
                then add_ultimate 3 Extreme_proportions f1
                else f1);
          f3 = (if vertex_density analysis > 100
                then add_anatomical 1 High_vertex_density f2
                else if vertex_density analysis < 10
                then add_ultimate 1 Low_vertex_density f2
                else f2);
          f4 = (if has_colors analysis \<and> has_normals analysis
                then add_anatomical 2 Rich_data f3
                else if n_arrays analysis = 0
                then add_ultimate 1 Minimal_data f3
                else f3);
          f5 = (if 100 < diagonal analysis \<and> diagonal analysis < 300
                then add_anatomical 1 Standard_face_size f4
                else if diagonal analysis > 500 \<or> diagonal analysis < 50
                then add_ultimate 2 Unusual_size f4
                else f4);
          selected_method =
            (if anatomical_score f5 \<ge> ultimate_score f5 then anatomical else ultimate)
      in (selected_method, f5))"

text \<open>
  \<open>apply_hybrid_scale_free_alignment\<close>, once the input file has been found: the
  analysis, the selection, then the selected alignment, whose result is tagged with
  the alignment used. The anatomical branch runs the scale-free aligner. The ultimate
  branch runs \<open>UltimateScaleFreePreprocessor\<close>, which aligns the mesh to a reference
  mesh read from a file of its own; it is a parameter here.
\<close>

definition apply_hybrid_scale_free_alignment ::
  "(ply_mesh \<Rightarrow> py_error + alignment_result) \<Rightarrow> ply_mesh
     \<Rightarrow> py_error + align_method \<times> alignment_result" where
  "apply_hybrid_scale_free_alignment ultimate_processor mesh =
     (case analyze_ply_characteristics mesh of
        Inl e \<Rightarrow> Inl e
      | Inr analysis \<Rightarrow>
          (let (selected_method, scoring) = select_optimal_method analysis
           in if selected_method = anatomical
              then (case apply_scale_free_alignment mesh of
                      Inl e \<Rightarrow> Inl e
                    | Inr result \<Rightarrow> Inr (anatomical, result))
              else (case ultimate_processor mesh of
                      Inl e \<Rightarrow> Inl e
                    | Inr result \<Rightarrow> Inr (ultimate, result))))"

section \<open>Outcome classification and the test of both alignments (eyuptest.py)\<close>

text \<open>
  The error reported by the external predictor is a Python float parsed from the
  decimal text matched by the pattern \<open>[\d.]+\<close>; it is modelled as a real number.
  The three thresholds are the fields set in \<open>ComprehensivePLYTestSuite.__init__\<close>.
\<close>

definition excellent_threshold :: real where
  "excellent_threshold = 10.0"

definition good_threshold :: real where
  "good_threshold = 100.0"

definition poor_threshold :: real where
  "poor_threshold = 10000.0"

datatype tier = excellent | very_good | good | poor

text \<open>
  \<open>classify_performance\<close> returns a display label and a status; the label is a function of
  the status, so only the status is kept.
\<close>

definition classify_performance :: "real \<Rightarrow> tier" where
  "classify_performance ransac_error =
     (if ransac_error < excellent_threshold then excellent
      else if ransac_error < good_threshold then very_good
      else if ransac_error < poor_threshold then good
      else poor)"

text \<open>
  The four list comprehensions of \<open>generate_final_report\<close> that split the successful
  results by their best error; the lengths of the four lists are the reported counts.
\<close>

definition performance_breakdown :: "real list \<Rightarrow> nat \<times> nat \<times> nat \<times> nat" where
  "performance_breakdown errs =
     (length (filter (\<lambda>r. r < excellent_threshold) errs),
      length (filter (\<lambda>r. excellent_threshold \<le> r \<and> r < good_threshold) errs),
      length (filter (\<lambda>r. good_threshold \<le> r \<and> r < poor_threshold) errs),
      length (filter (\<lambda>r. poor_threshold \<le> r) errs))"

definition tier_count :: "tier \<Rightarrow> real list \<Rightarrow> nat" where
  "tier_count t errs = length (filter (\<lambda>r. classify_performance r = t) errs)"

text \<open>
  What \<open>test_anatomical_method\<close> and \<open>test_ultimate_method\<close> return for a file: the
  parsed error on success, or a failure (alignment raised, the predictor timed out, no
  error could be parsed). The diagnostic fields \<open>scale_factor\<close> and \<open>anatomy_guess\<close>
  that the anatomical test passes along are left out.
\<close>

datatype test_outcome = Succeeded real | Failed

text \<open>
  Both tests run an external process. For one file they are modelled by the outcome
  each of them would produce, and by a log of the tests that were really run.
\<close>

record predictor =
  anatomical_outcome :: test_outcome
  ultimate_outcome :: test_outcome

definition test_anatomical_method :: "predictor \<Rightarrow> align_method list \<Rightarrow> test_outcome \<times> align_method list" where
  "test_anatomical_method env calls = (anatomical_outcome env, calls @ [anatomical])"

definition test_ultimate_method :: "predictor \<Rightarrow> align_method list \<Rightarrow> test_outcome \<times> align_method list" where
  "test_ultimate_method env calls = (ultimate_outcome env, calls @ [ultimate])"

record method_result =
  ransac_error :: real
  status :: tier

datatype recommendation =
    Use_anatomical_excellent
  | Use_anatomical real
  | Use_ultimate real real
  | Use_anatomical_ultimate_failed
  | Use_ultimate_anatomical_failed
  | Both_methods_failed

record hybrid_result =
  anatomical_result :: "method_result option"
  ultimate_result :: "method_result option"
  best_method :: "align_method option"
  best_ransac :: "real option"
  best_performance :: "tier option"
  needs_optimization :: bool
  recommendation :: "recommendation option"

definition record_outcome :: "test_outcome \<Rightarrow> method_result option" where
  "record_outcome out =
     (case out of
        Succeeded ransac \<Rightarrow> Some \<lparr>ransac_error = ransac, status = classify_performance ransac\<rparr>
      | Failed \<Rightarrow> None)"

text \<open>
  The part of \<open>test_single_file_hybrid\<close> after both tests, which picks the best of
  the two results. The last test is Python truthiness: a best error of 0.0 counts as
  absent.
\<close>

definition determine_best :: "hybrid_result \<Rightarrow> hybrid_result" where
  "determine_best result =
     (let r1 =
        (case (anatomical_result result, ultimate_result result) of
           (Some a, Some u) \<Rightarrow>
             (let anat_ransac = ransac_error a; ult_ransac = ransac_error u
              in if anat_ransac \<le> ult_ransac
                 then result\<lparr>best_method := Some anatomical, best_ransac := Some anat_ransac,
                        best_performance := Some (status a),
                        recommendation := Some (Use_anatomical anat_ransac)\<rparr>
                 else result\<lparr>best_method := Some ultimate, best_ransac := Some ult_ransac,
                        best_performance := Some (status u),
                        recommendation := Some (Use_ultimate ult_ransac
                          (if ult_ransac > 0 then anat_ransac / ult_ransac else 1))\<rparr>)
         | (Some a, None) \<Rightarrow>
             result\<lparr>best_method := Some anatomical, best_ransac := Some (ransac_error a),
               best_performance := Some (status a),
               recommendation := Some Use_anatomical_ultimate_failed\<rparr>
         | (None, Some u) \<Rightarrow>
             result\<lparr>best_method := Some ultimate, best_ransac := Some (ransac_error u),
               best_performance := Some (status u),
               recommendation := Some Use_ultimate_anatomical_failed\<rparr>
         | (None, None) \<Rightarrow>
             result\<lparr>recommendation := Some Both_methods_failed, needs_optimization := True\<rparr>)
      in (case best_ransac r1 of
            Some b \<Rightarrow> if b \<noteq> 0 \<and> b > good_threshold then r1\<lparr>needs_optimization := True\<rparr> else r1
          | None \<Rightarrow> r1))"

text \<open>
  \<open>test_single_file_hybrid\<close>: the anatomical test always runs first; the ultimate test
  is skipped only when the anatomical status is excellent. The result comes with the
  log of the tests that were run.
\<close>

definition test_single_file_hybrid :: "predictor \<Rightarrow> hybrid_result \<times> align_method list" where
  "test_single_file_hybrid env =
     (let result0 = \<lparr>anatomical_result = None, ultimate_result = None, best_method = None,
                      best_ransac = None, best_performance = None,
                      needs_optimization = False, recommendation = None\<rparr>;
          (anat_out, calls1) = test_anatomical_method env [];
          result1 = result0\<lparr>anatomical_result := record_outcome anat_out\<rparr>
      in (case anatomical_result result1 of
            Some a \<Rightarrow>
              if status a = excellent
              then (result1\<lparr>best_method := Some anatomical,
                      best_ransac := Some (ransac_error a),
                      best_performance := Some (status a),
                      recommendation := Some Use_anatomical_excellent\<rparr>, calls1)
              else
                (let (ult_out, calls2) = test_ultimate_method env calls1;
                     result2 = result1\<lparr>ultimate_result := record_outcome ult_out\<rparr>
                 in (determine_best result2, calls2))
          | None \<Rightarrow>
              (let (ult_out, calls2) = test_ultimate_method env calls1;
                   result2 = result1\<lparr>ultimate_result := record_outcome ult_out\<rparr>
               in (determine_best result2, calls2))))"

section \<open>Vector and matrix algebra\<close>

lemma matmul_assoc: "matmul (matmul A B) C = matmul A (matmul B C)"
  by (cases A; cases B; cases C; auto simp: algebra_simps)

lemma mat_T_matmul: "mat_T (matmul A B) = matmul (mat_T B) (mat_T A)"
  by (cases A; cases B; auto simp: algebra_simps)

lemma mat_T_T: "mat_T (mat_T A) = A"
  by (cases A; auto)

lemma matmul_id_left: "matmul identity3 A = A"
  by (cases A; auto simp: identity3_def)

lemma mat_vec_matmul: "mat_vec (matmul A B) v = mat_vec A (mat_vec B v)"
  by (cases A; cases B; cases v; auto simp: algebra_simps)

lemma det3_matmul: "det3 (matmul A B) = det3 A * det3 B"
  by (cases A; cases B; auto simp: algebra_simps)

lemma det3_T: "det3 (mat_T A) = det3 A"
  by (cases A; auto simp: algebra_simps)

lemma dot_self_nonneg: "0 \<le> dot v v"
  by (cases v) simp

lemma dot_self_zero: "dot v v = 0 \<longleftrightarrow> v = (0, 0, 0)"
proof (cases v)
  case (fields a b c)
  have "a * a + b * b + c * c = 0 \<longleftrightarrow> a = 0 \<and> b = 0 \<and> c = 0"
    by (simp add: add_nonneg_eq_0_iff)
  then show ?thesis by (simp add: fields)
qed

lemma dot_vscale_left: "dot (vscale s a) b = s * dot a b"
  by (cases a; cases b) (simp add: algebra_simps)

lemma dot_vscale_right: "dot a (vscale s b) = s * dot a b"
  by (cases a; cases b) (simp add: algebra_simps)

lemma dot_cross_right: "dot (cross u n) n = 0"
  by (cases u; cases n) (simp add: algebra_simps)

lemma dot_cross_self_left: "dot (cross n r) n = 0"
  by (cases r; cases n) (simp add: algebra_simps)

lemma vscale_one: "vscale 1 v = v"
  by (cases v) simp

lemma normalized_unit: "dot v v = 1 \<Longrightarrow> normalized v = Some v"
  by (simp add: normalized_def linalg_norm_def vscale_one)

lemma normalized_None_iff: "normalized v = None \<longleftrightarrow> v = (0, 0, 0)"
  using dot_self_zero [of v] dot_self_nonneg [of v]
  by (simp add: normalized_def linalg_norm_def)

lemma normalized_nonzero:
  assumes "v \<noteq> (0, 0, 0)"
  shows "normalized v = Some (vscale (1 / linalg_norm v) v)"
    and "dot (vscale (1 / linalg_norm v) v) (vscale (1 / linalg_norm v) v) = 1"
proof -
  have pos: "0 < dot v v"
    using assms dot_self_zero [of v] dot_self_nonneg [of v] by linarith
  then have npos: "0 < linalg_norm v"
    by (simp add: linalg_norm_def)
  then show "normalized v = Some (vscale (1 / linalg_norm v) v)"
    by (simp add: normalized_def)
  have sq: "linalg_norm v * linalg_norm v = dot v v"
    using pos by (simp add: linalg_norm_def)
  have "dot (vscale (1 / linalg_norm v) v) (vscale (1 / linalg_norm v) v)
        = dot v v / (linalg_norm v * linalg_norm v)"
    by (simp add: dot_vscale_left dot_vscale_right)
  also have "\<dots> = 1" using pos by (simp add: sq)
  finally show "dot (vscale (1 / linalg_norm v) v) (vscale (1 / linalg_norm v) v) = 1" .
qed

text \<open>
  A frame built from a unit nose and a unit right vector orthogonal to it is a rotation:
  its columns and its rows are orthonormal and its determinant is one.
\<close>

lemma frame_orthonormal:
  assumes "dot n n = 1" "dot r r = 1" "dot r n = 0"
  shows "matmul (mat_T (frame r n)) (frame r n) = identity3"
    and "matmul (frame r n) (mat_T (frame r n)) = identity3"
    and "det3 (frame r n) = 1"
proof -
  obtain n1 n2 n3 where n: "n = (n1, n2, n3)" by (cases n) auto
  obtain r1 r2 r3 where r: "r = (r1, r2, r3)" by (cases r) auto
  from assms have a:
    "n1 * n1 + n2 * n2 + n3 * n3 = 1" "r1 * r1 + r2 * r2 + r3 * r3 = 1"
    "r1 * n1 + r2 * n2 + r3 * n3 = 0"
    by (simp_all add: n r)
  show "matmul (mat_T (frame r n)) (frame r n) = identity3"
    unfolding n r identity3_def frame_def
    apply (simp (no_asm))
    apply (intro conjI)
            apply (use a in \<open>(algebra | (simp add: algebra_simps; fail))\<close>)+
    done
  show "matmul (frame r n) (mat_T (frame r n)) = identity3"
    unfolding n r identity3_def frame_def
    apply (simp (no_asm))
    apply (intro conjI)
            apply (use a in \<open>(algebra | (simp add: algebra_simps; fail))\<close>)+
    done
  show "det3 (frame r n) = 1"
    unfolding n r frame_def
    apply (simp (no_asm))
    apply (use a in algebra)
    done
qed

lemma frame_T_nose:
  assumes "dot n n = 1" "dot r n = 0"
  shows "mat_vec (mat_T (frame r n)) n = (0, 0, 1)"
  using assms dot_cross_self_left [of n r]
  by (cases n; cases r) (simp add: frame_def algebra_simps)

lemma frame_T_up:
  assumes "dot n n = 1" "dot r r = 1" "dot r n = 0"
  shows "mat_vec (mat_T (frame r n)) (cross n r) = (0, 1, 0)"
proof -
  have "matmul (mat_T (frame r n)) (frame r n) = identity3"
    using assms by (rule frame_orthonormal)
  then show ?thesis
    by (cases n; cases r) (simp add: frame_def identity3_def algebra_simps)
qed

lemma frame_nose: "mat_vec (frame r n) (0, 0, 1) = n"
  by (cases n; cases r) (simp add: frame_def)

lemma frame_up: "mat_vec (frame r n) (0, 1, 0) = cross n r"
  by (cases n; cases r) (simp add: frame_def)

lemma rotation_of_frames:
  assumes f: "dot fn fn = 1" "dot fr fr = 1" "dot fr fn = 0"
      and t: "dot tn tn = 1" "dot tr tr = 1" "dot tr tn = 0"
  defines "R \<equiv> matmul (frame tr tn) (mat_T (frame fr fn))"
  shows "matmul R (mat_T R) = identity3"
    and "matmul (mat_T R) R = identity3"
    and "det3 R = 1"
    and "mat_vec R fn = tn"
    and "mat_vec R (cross fn fr) = cross tn tr"
proof -
  let ?F = "frame fr fn" and ?T = "frame tr tn"
  have "matmul R (mat_T R) = matmul ?T (matmul (matmul (mat_T ?F) ?F) (mat_T ?T))"
    by (simp add: R_def mat_T_matmul mat_T_T matmul_assoc)
  then show "matmul R (mat_T R) = identity3"
    by (simp add: frame_orthonormal [OF f] frame_orthonormal [OF t] matmul_id_left)
  have "matmul (mat_T R) R = matmul ?F (matmul (matmul (mat_T ?T) ?T) (mat_T ?F))"
    by (simp add: R_def mat_T_matmul mat_T_T matmul_assoc)
  then show "matmul (mat_T R) R = identity3"
    by (simp add: frame_orthonormal [OF f] frame_orthonormal [OF t] matmul_id_left)
  show "det3 R = 1"
    by (simp add: R_def det3_matmul det3_T frame_orthonormal [OF f] frame_orthonormal [OF t])
  show "mat_vec R fn = tn"
    by (simp add: R_def mat_vec_matmul frame_T_nose [OF f(1) f(3)] frame_nose)
  show "mat_vec R (cross fn fr) = cross tn tr"
    by (simp add: R_def mat_vec_matmul frame_T_up [OF f] frame_up)
qed

lemma dot_vec_of: "dot (vec_of d) (vec_of d) = 1"
  by (cases d) simp_all

lemma normalized_vec_of: "normalized (vec_of d) = Some (vec_of d)"
  by (simp add: normalized_unit dot_vec_of)

text \<open>Two axis directions are parallel exactly when they are equal or opposite.\<close>

lemma parallel_vec_of: "parallel (vec_of a) (vec_of b) = (a = b \<or> a = opposite b)"
  by (cases a; cases b) (simp_all add: parallel_def)

text \<open>
  For directions whose pairs are not parallel, the solver returns the product of the
  target frame and the transposed source frame.
\<close>

lemma calculate_rotation_matrix_frames:
  assumes "\<not> parallel (vec_of fu) (vec_of fn)" "\<not> parallel (vec_of tu) (vec_of tn)"
  defines "fr \<equiv> vscale (1 / linalg_norm (cross (vec_of fu) (vec_of fn)))
                    (cross (vec_of fu) (vec_of fn))"
      and "tr \<equiv> vscale (1 / linalg_norm (cross (vec_of tu) (vec_of tn)))
                    (cross (vec_of tu) (vec_of tn))"
  shows "calculate_rotation_matrix fn fu tn tu =
           Some (matmul (frame tr (vec_of tn)) (mat_T (frame fr (vec_of fn))))"
    and "dot fr fr = 1" and "dot fr (vec_of fn) = 0"
    and "dot tr tr = 1" and "dot tr (vec_of tn) = 0"
proof -
  have np: "cross (vec_of fu) (vec_of fn) \<noteq> (0, 0, 0)"
    "cross (vec_of tu) (vec_of tn) \<noteq> (0, 0, 0)"
    using assms(1,2) by (simp_all add: parallel_def)
  show "dot fr fr = 1" "dot tr tr = 1"
    using np by (simp_all add: fr_def tr_def normalized_nonzero(2))
  show "dot fr (vec_of fn) = 0" "dot tr (vec_of tn) = 0"
    by (simp_all add: fr_def tr_def dot_vscale_left dot_cross_right)
  show "calculate_rotation_matrix fn fu tn tu =
      Some (matmul (frame tr (vec_of tn)) (mat_T (frame fr (vec_of fn))))"
    using normalized_nonzero(1) [OF np(1)] normalized_nonzero(1) [OF np(2)]
    by (simp add: calculate_rotation_matrix_def normalized_unit dot_vec_of frame_def
        fr_def tr_def)
qed

text \<open>
  For directions whose pairs are not parallel, the matrix that the solver returns is a
  rotation that sends the source nose to the target nose.
\<close>

lemma rotation_solver_on_axes:
  assumes "\<not> parallel (vec_of fu) (vec_of fn)" "\<not> parallel (vec_of tu) (vec_of tn)"
  shows "\<exists>R. calculate_rotation_matrix fn fu tn tu = Some R
            \<and> matmul R (mat_T R) = identity3 \<and> matmul (mat_T R) R = identity3
            \<and> det3 R = 1 \<and> mat_vec R (vec_of fn) = vec_of tn"
proof -
  note c = calculate_rotation_matrix_frames [OF assms]
  note r = rotation_of_frames [OF dot_vec_of c(2) c(3) dot_vec_of c(4) c(5)]
  show ?thesis using c(1) r(1-4) by simp
qed

section \<open>The rotation of the pipeline and the analysis of a mesh\<close>

lemma dot_mat_vec: "dot (mat_vec R v) w = dot v (mat_vec (mat_T R) w)"
  by (cases R; cases v; cases w) (auto simp: algebra_simps)

lemma mat_vec_identity: "mat_vec identity3 v = v"
  by (cases v) (simp add: identity3_def)

lemma isometry_dot:
  assumes "matmul (mat_T R) R = identity3"
  shows "dot (mat_vec R v) (mat_vec R v) = dot v v"
proof -
  have "dot (mat_vec R v) (mat_vec R v) = dot v (mat_vec (matmul (mat_T R) R) v)"
    by (simp add: dot_mat_vec mat_vec_matmul)
  then show ?thesis by (simp add: assms mat_vec_identity)
qed

lemma mat_vec_vsub: "vsub (mat_vec R p) (mat_vec R q) = mat_vec R (vsub p q)"
  by (cases R; cases p; cases q) (auto simp: algebra_simps)

lemma vsub_vadd_cancel: "vsub (vadd p t) (vadd q t) = vsub p q"
  by (cases p; cases q; cases t) simp

lemma isometry_distance:
  assumes "matmul (mat_T R) R = identity3"
  shows "distance (mat_vec R (vadd p t)) (mat_vec R (vadd q t)) = distance p q"
  by (simp add: distance_def linalg_norm_def mat_vec_vsub vsub_vadd_cancel isometry_dot [OF assms])

lemma mat_vec_zero: "mat_vec R (0, 0, 0) = (0, 0, 0)"
  by (cases R) auto

lemma guess_orientation_cases:
  "guess_orientation xr yr zr \<in>
     {(standard, Z_pos, Y_pos), (z_up, X_pos, Z_pos),
      (x_up, Y_pos, X_pos), (unknown, Z_pos, Y_pos)}"
  by (simp add: guess_orientation_def)

lemma pipeline_rotation:
  assumes "guess_orientation xr yr zr = (g, n, u)"
  shows "\<exists>R. calculate_rotation_matrix n u nose_direction up_direction = Some R
            \<and> matmul (mat_T R) R = identity3"
proof -
  have "(n, u) \<in> {(Z_pos, Y_pos), (X_pos, Z_pos), (Y_pos, X_pos)}"
    using guess_orientation_cases [of xr yr zr] assms by auto
  then have "\<not> parallel (vec_of u) (vec_of n)"
    "\<not> parallel (vec_of up_direction) (vec_of nose_direction)"
    by (auto simp: parallel_def nose_direction_def up_direction_def)
  from rotation_solver_on_axes [OF this] show ?thesis by blast
qed

lemma unknown_rotation_identity:
  "calculate_rotation_matrix Z_pos Y_pos nose_direction up_direction = Some identity3"
  by (simp add: calculate_rotation_matrix_def normalized_def linalg_norm_def identity3_def
      nose_direction_def up_direction_def)

lemma detect_nonempty:
  assumes "vs \<noteq> []" "guess_orientation (x_range b) (y_range b) (z_range b) = (g, n, u)"
  shows "\<exists>a. detect_anatomical_features vs b = Inr a
            \<and> orientation_guess a = g \<and> estimated_nose_dir a = n \<and> estimated_up_dir a = u"
  using assms by (cases vs) (simp_all add: detect_anatomical_features_def Let_def)

lemma analyze_nonempty:
  assumes "points mesh \<noteq> []"
      and "guess_orientation (x_range (mesh_bounds mesh)) (y_range (mesh_bounds mesh))
             (z_range (mesh_bounds mesh)) = (g, n, u)"
  shows "\<exists>a. analyze_ply_anatomy mesh = Inr a \<and> np_mean (points mesh) = Some (center a)
            \<and> bounds a = mesh_bounds mesh \<and> vertices a = points mesh
            \<and> orientation_guess (anatomy a) = g
            \<and> estimated_nose_dir (anatomy a) = n \<and> estimated_up_dir (anatomy a) = u"
proof -
  obtain a where a: "detect_anatomical_features (points mesh) (mesh_bounds mesh) = Inr a"
    "orientation_guess a = g" "estimated_nose_dir a = n" "estimated_up_dir a = u"
    using detect_nonempty [OF assms] by blast
  obtain c where c: "np_mean (points mesh) = Some c"
    using assms(1) by (simp add: np_mean_def)
  show ?thesis
    using a c by (simp add: analyze_ply_anatomy_def)
qed

lemma vadd_vneg: "vadd c (vneg c) = (0, 0, 0)"
  by (cases c) simp

lemma vadd_vsub_zero: "vadd c (vsub (0, 0, 0) c) = (0, 0, 0)"
  by (cases c) simp

lemma guess_orientation_obtain:
  obtains g n u where "guess_orientation xr yr zr = (g, n, u)"
  by (cases "guess_orientation xr yr zr") auto

section \<open>Bounds, scores and the test of both alignments\<close>

lemma bounding_diagonal_zero:
  "bounding_diagonal b = 0 \<longleftrightarrow> x_range b = 0 \<and> y_range b = 0 \<and> z_range b = 0"
proof -
  have "(x_range b)\<^sup>2 + (y_range b)\<^sup>2 + (z_range b)\<^sup>2 = 0
      \<longleftrightarrow> x_range b = 0 \<and> y_range b = 0 \<and> z_range b = 0"
    by (simp add: add_nonneg_eq_0_iff)
  then show ?thesis by (simp add: bounding_diagonal_def)
qed

lemma scenario_A_diagonal:
  assumes "x_range b = 50" "y_range b = 190" "z_range b = 40"
  shows "(bounding_diagonal b)\<^sup>2 = 40200" "100 < bounding_diagonal b" "bounding_diagonal b < 300"
proof -
  have d: "bounding_diagonal b = sqrt 40200"
    by (simp add: bounding_diagonal_def assms)
  show "(bounding_diagonal b)\<^sup>2 = 40200" by (simp add: d)
  show "100 < bounding_diagonal b"
    unfolding d by (rule real_less_rsqrt) simp
  show "bounding_diagonal b < 300"
    unfolding d by (rule real_less_lsqrt) simp_all
qed

lemma select_scores_bound:
  assumes "\<not> is_standard_face c" "max_aspect_ratio c > 3.0"
    "100 < diagonal c" "diagonal c < 300"
  shows "ultimate_score (snd (select_optimal_method c)) \<ge> 5"
    and "anatomical_score (snd (select_optimal_method c)) \<le> 4"
    and "fst (select_optimal_method c) = ultimate"
  using assms
  by (simp_all add: select_optimal_method_def add_anatomical_def add_ultimate_def Let_def)

lemma scenario_A_characteristics:
  assumes "x_range (mesh_bounds mesh) = 50" "y_range (mesh_bounds mesh) = 190"
    "z_range (mesh_bounds mesh) = 40"
  shows "\<exists>c. analyze_ply_characteristics mesh = Inr c \<and> \<not> is_standard_face c
           \<and> max_aspect_ratio c = 4.75
           \<and> diagonal c = bounding_diagonal (mesh_bounds mesh)"
proof -
  obtain colors normals where
    sc: "scan_arrays 0 (point_data mesh) (False, False) = (colors, normals)"
    by (cases "scan_arrays 0 (point_data mesh) (False, False)") auto
  show ?thesis
    by (simp add: analyze_ply_characteristics_def assms sc Let_def)
qed

lemma hybrid_accepted:
  assumes "e < excellent_threshold"
  shows "test_single_file_hybrid \<lparr>anatomical_outcome = Succeeded e, ultimate_outcome = u\<rparr> =
      (\<lparr>anatomical_result = Some \<lparr>ransac_error = e, status = excellent\<rparr>,
        ultimate_result = None, best_method = Some anatomical, best_ransac = Some e,
        best_performance = Some excellent, needs_optimization = False,
        recommendation = Some Use_anatomical_excellent\<rparr>, [anatomical])"
  using assms
  by (simp add: test_single_file_hybrid_def test_anatomical_method_def record_outcome_def
      classify_performance_def Let_def)

lemma classify_not_excellent:
  "\<not> e < excellent_threshold \<Longrightarrow> classify_performance e \<noteq> excellent"
  by (simp add: classify_performance_def)

lemma hybrid_retried:
  assumes "\<not> e < excellent_threshold"
  shows "test_single_file_hybrid \<lparr>anatomical_outcome = Succeeded e, ultimate_outcome = u\<rparr> =
      (determine_best
         \<lparr>anatomical_result = Some \<lparr>ransac_error = e, status = classify_performance e\<rparr>,
          ultimate_result = record_outcome u, best_method = None, best_ransac = None,
          best_performance = None, needs_optimization = False, recommendation = None\<rparr>,
       [anatomical, ultimate])"
  using classify_not_excellent [OF assms]
  by (simp add: test_single_file_hybrid_def test_anatomical_method_def
      test_ultimate_method_def record_outcome_def Let_def)

lemma determine_best_keeps:
  "anatomical_result (determine_best r) = anatomical_result r"
  "ultimate_result (determine_best r) = ultimate_result r"
  by (simp_all add: determine_best_def Let_def split: option.splits)

lemma determine_best_both:
  assumes "anatomical_result r = Some a" "ultimate_result r = Some u"
  shows "best_ransac (determine_best r) = Some (min (ransac_error a) (ransac_error u))"
    and "best_method (determine_best r) =
      Some (if ransac_error a \<le> ransac_error u then anatomical else ultimate)"
  using assms
  by (simp_all add: determine_best_def Let_def min_def split: option.splits)

section \<open>The rotation solver\<close>

text \<open>
  Claim C3 as stated fails. With from_up = from_nose = (0, 0, 1) the cross product is
  the zero vector; the solver divides it by its zero norm and returns the matrix whose
  entries are all NaN, not the identity.
\<close>

theorem rotation_solver_parallel_counterexample:
  "vec_of Z_pos = (0, 0, 1)
   \<and> parallel (vec_of Z_pos) (vec_of Z_pos)
   \<and> calculate_rotation_matrix Z_pos Z_pos Z_pos Y_pos = None
   \<and> calculate_rotation_matrix Z_pos Z_pos Z_pos Y_pos \<noteq> Some identity3"
  by (simp add: parallel_def calculate_rotation_matrix_def normalized_def linalg_norm_def)

text \<open>
  Claim C3, amended. The solver has no test for parallel inputs and no fallback to the
  identity. Whenever from_up and from_nose are parallel axis directions (equal or
  opposite), or to_up and to_nose are, it signals nothing and every entry of the
  matrix it returns is NaN. Parallel inputs off the coordinate axes are left out: what
  the solver returns for them depends on binary64 rounding.
\<close>

theorem rotation_solver_parallel_nan:
  assumes "parallel (vec_of from_up) (vec_of from_nose)
           \<or> parallel (vec_of to_up) (vec_of to_nose)"
  shows "calculate_rotation_matrix from_nose from_up to_nose to_up = None"
proof -
  have "normalized (cross (vec_of from_up) (vec_of from_nose)) = None
        \<or> normalized (cross (vec_of to_up) (vec_of to_nose)) = None"
    using assms by (auto simp: parallel_def normalized_None_iff)
  then show ?thesis
    by (auto simp add: calculate_rotation_matrix_def normalized_vec_of split: option.splits)
qed

text \<open>
  Witness for the amended C3: a source pair of two opposite directions.
\<close>

theorem rotation_solver_parallel_nan_witness:
  "parallel (vec_of X_pos) (vec_of X_neg)
   \<and> calculate_rotation_matrix X_neg X_pos Z_pos Y_pos = None"
proof -
  have h: "parallel (vec_of X_pos) (vec_of X_neg)" by (simp add: parallel_def)
  then have "parallel (vec_of X_pos) (vec_of X_neg) \<or> parallel (vec_of Y_pos) (vec_of Z_pos)"
    by simp
  from rotation_solver_parallel_nan [OF this] h show ?thesis by simp
qed

section \<open>The composed transform\<close>

text \<open>
  Claim C6. In scale-preserving mode the transform of a mesh with at least one vertex
  has scale factor exactly 1.0, every vertex has an image, and the distance between the
  images of two vertices is the distance between the vertices.
\<close>

theorem scale_free_alignment_isometry:
  assumes "points mesh \<noteq> []"
  shows "\<exists>r. apply_scale_free_alignment mesh = Inr r
           \<and> scale_factor (result_params r) = 1.0
           \<and> transformed_points r = map (transform_point_no_scale (result_params r)) (points mesh)
           \<and> (\<forall>p \<in> set (points mesh). \<forall>q \<in> set (points mesh).
                 \<exists>p' q'. transform_point_no_scale (result_params r) p = Some p'
                        \<and> transform_point_no_scale (result_params r) q = Some q'
                        \<and> distance p' q' = distance p q)"
proof -
  obtain g n u where g: "guess_orientation (x_range (mesh_bounds mesh))
      (y_range (mesh_bounds mesh)) (z_range (mesh_bounds mesh)) = (g, n, u)"
    by (rule guess_orientation_obtain)
  obtain a where a: "analyze_ply_anatomy mesh = Inr a"
    "estimated_nose_dir (anatomy a) = n" "estimated_up_dir (anatomy a) = u"
    using analyze_nonempty [OF assms g] by blast
  obtain R where R: "calculate_rotation_matrix n u nose_direction up_direction = Some R"
    "matmul (mat_T R) R = identity3"
    using pipeline_rotation [OF g] by blast
  define tp where "tp = calculate_anatomical_transform_no_scale a"
  have tp: "rotation_matrix tp = Some R" "scale_factor tp = 1.0"
    by (simp_all add: tp_def calculate_anatomical_transform_no_scale_def a R Let_def)
  have r: "apply_scale_free_alignment mesh =
      Inr \<lparr>result_params = tp,
           transformed_points = map (transform_point_no_scale tp) (points mesh)\<rparr>"
    by (simp add: apply_scale_free_alignment_def a tp_def Let_def)
  have pt: "transform_point_no_scale tp p = Some (mat_vec R (vadd p (translation tp)))" for p
    by (simp add: transform_point_no_scale_def tp)
  have iso: "\<exists>p' q'. transform_point_no_scale tp p = Some p'
      \<and> transform_point_no_scale tp q = Some q' \<and> distance p' q' = distance p q" for p q
    by (intro exI conjI) (rule pt, rule pt, rule isometry_distance [OF R(2)])
  let ?r = "\<lparr>result_params = tp,
           transformed_points = map (transform_point_no_scale tp) (points mesh)\<rparr>"
  have "apply_scale_free_alignment mesh = Inr ?r" by (rule r)
  moreover have "scale_factor (result_params ?r) = 1.0" by (simp add: tp)
  moreover have "transformed_points ?r
      = map (transform_point_no_scale (result_params ?r)) (points mesh)" by simp
  moreover have "\<forall>p \<in> set (points mesh). \<forall>q \<in> set (points mesh).
      \<exists>p' q'. transform_point_no_scale (result_params ?r) p = Some p'
        \<and> transform_point_no_scale (result_params ?r) q = Some q'
        \<and> distance p' q' = distance p q"
    using iso by simp
  ultimately show ?thesis by blast
qed

text \<open>
  Witness for C6: a mesh of two vertices in standard orientation.
\<close>

theorem scale_free_alignment_isometry_witness:
  "points \<lparr>points = [(0, 0, 0), (2, 3, 1)], mesh_bounds = (0, 2, 0, 3, 0, 1), point_data = []\<rparr> \<noteq> []
   \<and> (\<exists>r. apply_scale_free_alignment
            \<lparr>points = [(0, 0, 0), (2, 3, 1)], mesh_bounds = (0, 2, 0, 3, 0, 1), point_data = []\<rparr> = Inr r
          \<and> scale_factor (result_params r) = 1
          \<and> (\<exists>p' q'. transform_point_no_scale (result_params r) (0, 0, 0) = Some p'
                \<and> transform_point_no_scale (result_params r) (2, 3, 1) = Some q'
                \<and> distance p' q' = distance (0, 0, 0) (2, 3, 1)))"
proof -
  let ?m = "\<lparr>points = [(0, 0, 0), (2, 3, 1)], mesh_bounds = (0, 2, 0, 3, 0, 1), point_data = []\<rparr>"
  have h: "points ?m \<noteq> []" by simp
  from scale_free_alignment_isometry [OF h] obtain r where
    r: "apply_scale_free_alignment ?m = Inr r" "scale_factor (result_params r) = 1.0"
      "\<forall>p \<in> set (points ?m). \<forall>q \<in> set (points ?m).
                 \<exists>p' q'. transform_point_no_scale (result_params r) p = Some p'
                        \<and> transform_point_no_scale (result_params r) q = Some q'
                        \<and> distance p' q' = distance p q"
    by blast
  from r(3) have "\<exists>p' q'. transform_point_no_scale (result_params r) (0, 0, 0) = Some p'
                \<and> transform_point_no_scale (result_params r) (2, 3, 1) = Some q'
                \<and> distance p' q' = distance (0, 0, 0) (2, 3, 1)"
    by simp
  with r(1,2) h show ?thesis by simp
qed

text \<open>
  Claim C7 as stated fails in normal mode. A flat mesh in the plane y = 0 has a
  non-zero bounding diagonal, yet its Y extent is zero, the scale factor cannot be
  computed and no transform is produced.
\<close>

theorem flat_mesh_counterexample:
  "points \<lparr>points = [(0, 0, 0), (1, 0, 0), (0, 0, 1)], mesh_bounds = (0, 1, 0, 0, 0, 1),
           point_data = []\<rparr> \<noteq> []
   \<and> bounding_diagonal (0, 1, 0, 0, 0, 1) \<noteq> 0
   \<and> apply_anatomical_alignment
       \<lparr>points = [(0, 0, 0), (1, 0, 0), (0, 0, 1)], mesh_bounds = (0, 1, 0, 0, 0, 1),
        point_data = []\<rparr> = Inl ZeroDivisionError"
  by (simp add: bounding_diagonal_def apply_anatomical_alignment_def analyze_ply_anatomy_def
      detect_anatomical_features_def np_mean_def guess_orientation_def
      calculate_anatomical_transform_def Let_def)

text \<open>
  Claim C7, amended. For every mesh with at least one vertex the centre computed by
  the analysis (the mean of the vertices) is sent to the target centre, the origin: by
  the scale-preserving transform always, and by the normal transform whenever the Y
  extent of the bounds is not zero. With a zero Y extent the normal mode raises
  ZeroDivisionError.
\<close>

theorem center_maps_to_origin:
  assumes "points mesh \<noteq> []"
  shows "\<exists>a. analyze_ply_anatomy mesh = Inr a \<and> np_mean (points mesh) = Some (center a)
           \<and> (y_range (mesh_bounds mesh) \<noteq> 0 \<longrightarrow>
                (\<exists>r. apply_anatomical_alignment mesh = Inr r
                    \<and> transform_point (result_params r) (center a) = Some standard_center))
           \<and> (y_range (mesh_bounds mesh) = 0 \<longrightarrow>
                apply_anatomical_alignment mesh = Inl ZeroDivisionError)
           \<and> (\<exists>r. apply_scale_free_alignment mesh = Inr r
                    \<and> transform_point_no_scale (result_params r) (center a) = Some standard_center)"
proof -
  obtain g n u where g: "guess_orientation (x_range (mesh_bounds mesh))
      (y_range (mesh_bounds mesh)) (z_range (mesh_bounds mesh)) = (g, n, u)"
    by (rule guess_orientation_obtain)
  obtain a where a: "analyze_ply_anatomy mesh = Inr a" "np_mean (points mesh) = Some (center a)"
    "bounds a = mesh_bounds mesh"
    "estimated_nose_dir (anatomy a) = n" "estimated_up_dir (anatomy a) = u"
    using analyze_nonempty [OF assms g] by blast
  obtain R where R: "calculate_rotation_matrix n u nose_direction up_direction = Some R"
    using pipeline_rotation [OF g] by blast
  have 1: "\<exists>r. apply_anatomical_alignment mesh = Inr r
      \<and> transform_point (result_params r) (center a) = Some standard_center"
    if "y_range (mesh_bounds mesh) \<noteq> 0"
    using that
    by (simp add: apply_anatomical_alignment_def a calculate_anatomical_transform_def R
        transform_point_def vadd_vneg mat_vec_zero standard_center_def Let_def)
  have 2: "apply_anatomical_alignment mesh = Inl ZeroDivisionError"
    if "y_range (mesh_bounds mesh) = 0"
    using that
    by (simp add: apply_anatomical_alignment_def a calculate_anatomical_transform_def Let_def)
  have 3: "\<exists>r. apply_scale_free_alignment mesh = Inr r
      \<and> transform_point_no_scale (result_params r) (center a) = Some standard_center"
    by (simp add: apply_scale_free_alignment_def a calculate_anatomical_transform_no_scale_def R
        transform_point_no_scale_def vadd_vsub_zero mat_vec_zero standard_center_def Let_def)
  show ?thesis using a(1,2) 1 2 3 by blast
qed

text \<open>
  Witness for the amended C7: a mesh of two vertices whose Y extent is 3.
\<close>

theorem center_maps_to_origin_witness:
  "\<exists>a. analyze_ply_anatomy
          \<lparr>points = [(0, 0, 0), (2, 3, 1)], mesh_bounds = (0, 2, 0, 3, 0, 1), point_data = []\<rparr> = Inr a
      \<and> center a = (1, 3 / 2, 1 / 2)
      \<and> (\<exists>r. apply_anatomical_alignment
            \<lparr>points = [(0, 0, 0), (2, 3, 1)], mesh_bounds = (0, 2, 0, 3, 0, 1), point_data = []\<rparr> = Inr r
          \<and> transform_point (result_params r) (center a) = Some (0, 0, 0))
      \<and> (\<exists>r. apply_scale_free_alignment
            \<lparr>points = [(0, 0, 0), (2, 3, 1)], mesh_bounds = (0, 2, 0, 3, 0, 1), point_data = []\<rparr> = Inr r
          \<and> transform_point_no_scale (result_params r) (center a) = Some (0, 0, 0))"
proof -
  let ?m = "\<lparr>points = [(0, 0, 0), (2, 3, 1)], mesh_bounds = (0, 2, 0, 3, 0, 1), point_data = []\<rparr>"
  have h: "points ?m \<noteq> []" by simp
  have y: "y_range (mesh_bounds ?m) \<noteq> 0" by simp
  have m: "np_mean (points ?m) = Some (1, 3 / 2, 1 / 2)" by (simp add: np_mean_def)
  from center_maps_to_origin [OF h] y m show ?thesis
    by (auto simp: standard_center_def)
qed

section \<open>Outcome tiers\<close>

text \<open>
  Claim C8. The tier classifier uses half-open boundaries: an error is excellent iff it is
  below 10, very good iff it lies in [10, 100), good iff it lies in [100, 10000) and poor
  iff it is at least 10000. An error of exactly 10.0 is very good, and the batch
  [4.1, 65.0, 9999.0, 15.0, 80000.0] has one excellent, two very good, one good and one
  poor entry, both when counted through the classifier and through the report's filters.
\<close>

theorem classify_performance_tiers:
  "(classify_performance e = excellent) = (e < 10)
   \<and> (classify_performance e = very_good) = (10 \<le> e \<and> e < 100)
   \<and> (classify_performance e = good) = (100 \<le> e \<and> e < 10000)
   \<and> (classify_performance e = poor) = (10000 \<le> e)
   \<and> classify_performance 10.0 = very_good
   \<and> tier_count excellent [4.1, 65.0, 9999.0, 15.0, 80000.0] = 1
   \<and> tier_count very_good [4.1, 65.0, 9999.0, 15.0, 80000.0] = 2
   \<and> tier_count good [4.1, 65.0, 9999.0, 15.0, 80000.0] = 1
   \<and> tier_count poor [4.1, 65.0, 9999.0, 15.0, 80000.0] = 1
   \<and> performance_breakdown [4.1, 65.0, 9999.0, 15.0, 80000.0] = (1, 2, 1, 1)"
  by (simp add: classify_performance_def excellent_threshold_def good_threshold_def
      poor_threshold_def tier_count_def performance_breakdown_def)

section \<open>Degenerate meshes and the scale factor\<close>

text \<open>
  Claim C4 as stated fails. A mesh of one vertex has a zero bounding diagonal; the
  analysis does not reject it: the orientation classification runs and answers
  unknown.
\<close>

theorem degenerate_mesh_counterexample:
  "bounding_diagonal (mesh_bounds
       \<lparr>points = [(1, 2, 3)], mesh_bounds = (1, 1, 2, 2, 3, 3), point_data = []\<rparr>) = 0
   \<and> (\<exists>a. analyze_ply_anatomy
            \<lparr>points = [(1, 2, 3)], mesh_bounds = (1, 1, 2, 2, 3, 3), point_data = []\<rparr> = Inr a
          \<and> orientation_guess (anatomy a) = unknown)"
  by (simp add: bounding_diagonal_def analyze_ply_anatomy_def detect_anatomical_features_def
      np_mean_def guess_orientation_def Let_def)

text \<open>
  Claim C4, amended. No entry point tests for a degenerate mesh, and what happens to a
  mesh with at least one vertex and a zero bounding diagonal depends on the entry
  point. In the anatomical aligner the analysis succeeds and the orientation
  classification answers unknown with the default directions; the mesh is rejected
  only afterwards, when the scale factor divides by the zero Y extent: the alignment
  ends with ZeroDivisionError and yields no transform. In the scale-free aligner the
  classification answers unknown as well, and a complete transform is produced
  (translation of the centre to the origin, identity rotation, scale 1.0) and applied
  to every vertex. Through the hybrid entry point the mesh is rejected before any
  classification or alignment, by the ZeroDivisionError of the first aspect ratio.
\<close>

theorem degenerate_mesh_by_entry_point:
  assumes "points mesh \<noteq> []" "bounding_diagonal (mesh_bounds mesh) = 0"
  shows "(\<exists>a. analyze_ply_anatomy mesh = Inr a
            \<and> orientation_guess (anatomy a) = unknown
            \<and> estimated_nose_dir (anatomy a) = Z_pos
            \<and> estimated_up_dir (anatomy a) = Y_pos
            \<and> apply_anatomical_alignment mesh = Inl ZeroDivisionError
            \<and> (\<exists>r. apply_scale_free_alignment mesh = Inr r
                  \<and> anatomy_guess (result_params r) = unknown
                  \<and> translation (result_params r) = vsub standard_center (center a)
                  \<and> rotation_matrix (result_params r) = Some identity3
                  \<and> scale_factor (result_params r) = 1.0
                  \<and> transformed_points r
                      = map (\<lambda>p. Some (vsub p (center a))) (points mesh)))
         \<and> analyze_ply_characteristics mesh = Inl ZeroDivisionError
         \<and> apply_hybrid_scale_free_alignment ultimate_processor mesh = Inl ZeroDivisionError"
proof -
  have z: "x_range (mesh_bounds mesh) = 0" "y_range (mesh_bounds mesh) = 0"
    "z_range (mesh_bounds mesh) = 0"
    using assms(2) by (simp_all add: bounding_diagonal_zero)
  have g: "guess_orientation (x_range (mesh_bounds mesh)) (y_range (mesh_bounds mesh))
      (z_range (mesh_bounds mesh)) = (unknown, Z_pos, Y_pos)"
    by (simp add: z guess_orientation_def)
  obtain a where a: "analyze_ply_anatomy mesh = Inr a" "bounds a = mesh_bounds mesh"
    "orientation_guess (anatomy a) = unknown"
    "estimated_nose_dir (anatomy a) = Z_pos" "estimated_up_dir (anatomy a) = Y_pos"
    using analyze_nonempty [OF assms(1) g] by blast
  have 1: "apply_anatomical_alignment mesh = Inl ZeroDivisionError"
    by (simp add: apply_anatomical_alignment_def a calculate_anatomical_transform_def z Let_def)
  define tp where "tp = calculate_anatomical_transform_no_scale a"
  have tp: "anatomy_guess tp = unknown" "translation tp = vsub standard_center (center a)"
    "rotation_matrix tp = Some identity3" "scale_factor tp = 1.0"
    by (simp_all add: tp_def calculate_anatomical_transform_no_scale_def a
        unknown_rotation_identity Let_def)
  have pt: "transform_point_no_scale tp p = Some (vsub p (center a))" for p
    by (cases p; cases "center a")
      (simp add: transform_point_no_scale_def tp mat_vec_identity standard_center_def)
  have 2: "apply_scale_free_alignment mesh =
      Inr \<lparr>result_params = tp,
           transformed_points = map (\<lambda>p. Some (vsub p (center a))) (points mesh)\<rparr>"
    by (simp add: apply_scale_free_alignment_def a tp_def [symmetric] pt Let_def)
  have 3: "analyze_ply_characteristics mesh = Inl ZeroDivisionError"
    by (simp add: analyze_ply_characteristics_def z Let_def split: prod.splits)
  have 4: "apply_hybrid_scale_free_alignment ultimate_processor mesh = Inl ZeroDivisionError"
    by (simp add: apply_hybrid_scale_free_alignment_def 3)
  show ?thesis
    using a(1,3,4,5) 1 2 3 4 tp by simp
qed

text \<open>
  Witness for the amended C4: the mesh of one vertex.
\<close>

theorem degenerate_mesh_by_entry_point_witness:
  "points \<lparr>points = [(1, 2, 3)], mesh_bounds = (1, 1, 2, 2, 3, 3), point_data = []\<rparr> \<noteq> []
   \<and> bounding_diagonal (1, 1, 2, 2, 3, 3) = 0
   \<and> apply_anatomical_alignment
        \<lparr>points = [(1, 2, 3)], mesh_bounds = (1, 1, 2, 2, 3, 3), point_data = []\<rparr>
      = Inl ZeroDivisionError
   \<and> (\<exists>r. apply_scale_free_alignment
        \<lparr>points = [(1, 2, 3)], mesh_bounds = (1, 1, 2, 2, 3, 3), point_data = []\<rparr> = Inr r
        \<and> transformed_points r = [Some (0, 0, 0)])
   \<and> apply_hybrid_scale_free_alignment (\<lambda>m. Inl IndexError)
        \<lparr>points = [(1, 2, 3)], mesh_bounds = (1, 1, 2, 2, 3, 3), point_data = []\<rparr>
      = Inl ZeroDivisionError"
proof -
  let ?m = "\<lparr>points = [(1, 2, 3)], mesh_bounds = (1, 1, 2, 2, 3, 3), point_data = []\<rparr>"
  have h: "points ?m \<noteq> []" "bounding_diagonal (mesh_bounds ?m) = 0"
    by (simp_all add: bounding_diagonal_def)
  have c: "analyze_ply_anatomy ?m = Inr a \<Longrightarrow> center a = (1, 2, 3)" for a
    by (auto simp: analyze_ply_anatomy_def detect_anatomical_features_def np_mean_def
        Let_def split: prod.splits)
  from degenerate_mesh_by_entry_point [OF h, of "\<lambda>m. Inl IndexError"] h c show ?thesis
    by auto
qed

text \<open>
  Claim C10. In normal mode the scale factor of a mesh with at least one vertex and a
  non-zero Y extent is 190.0 divided by the absolute raw Y extent of the bounds,
  bounds[3] - bounds[2], whatever orientation was detected from the three extents.
\<close>

theorem scale_factor_from_raw_y_extent:
  assumes "points mesh \<noteq> []" "mesh_bounds mesh = (b0, b1, b2, b3, b4, b5)" "b3 - b2 \<noteq> 0"
  shows "\<exists>r. apply_anatomical_alignment mesh = Inr r
           \<and> scale_factor (result_params r) = 190.0 / \<bar>b3 - b2\<bar>
           \<and> anatomy_guess (result_params r) = fst (guess_orientation (b1 - b0) (b3 - b2) (b5 - b4))"
proof -
  obtain g n u where g: "guess_orientation (x_range (mesh_bounds mesh))
      (y_range (mesh_bounds mesh)) (z_range (mesh_bounds mesh)) = (g, n, u)"
    by (rule guess_orientation_obtain)
  obtain a where a: "analyze_ply_anatomy mesh = Inr a" "bounds a = mesh_bounds mesh"
    "orientation_guess (anatomy a) = g"
    using analyze_nonempty [OF assms(1) g] by blast
  from g have g': "fst (guess_orientation (b1 - b0) (b3 - b2) (b5 - b4)) = g"
    by (simp add: assms(2))
  show ?thesis
    using assms(3)
    by (simp add: apply_anatomical_alignment_def a calculate_anatomical_transform_def
        assms(2) g' target_face_height_def Let_def)
qed

text \<open>
  Witness for C10: a mesh classified z_up with extents 40, 50, 190 is scaled by
  190 / 50, and a mesh classified x_up with extents 190, 40, 50 by 190 / 40, although
  the longest extent of each is already 190.
\<close>

theorem scale_factor_from_raw_y_extent_witness:
  "(\<exists>r. apply_anatomical_alignment
           \<lparr>points = [(0, 0, 0), (40, 50, 190)], mesh_bounds = (0, 40, 0, 50, 0, 190),
            point_data = []\<rparr> = Inr r
        \<and> scale_factor (result_params r) = 190 / 50
        \<and> anatomy_guess (result_params r) = z_up)
   \<and> (\<exists>r. apply_anatomical_alignment
           \<lparr>points = [(0, 0, 0), (190, 40, 50)], mesh_bounds = (0, 190, 0, 40, 0, 50),
            point_data = []\<rparr> = Inr r
        \<and> scale_factor (result_params r) = 190 / 40
        \<and> anatomy_guess (result_params r) = x_up)"
proof -
  let ?m = "\<lparr>points = [(0, 0, 0), (40, 50, 190)], mesh_bounds = (0, 40, 0, 50, 0, 190),
            point_data = []\<rparr>"
  let ?k = "\<lparr>points = [(0, 0, 0), (190, 40, 50)], mesh_bounds = (0, 190, 0, 40, 0, 50),
            point_data = []\<rparr>"
  have m: "points ?m \<noteq> []" "mesh_bounds ?m = (0, 40, 0, 50, 0, 190)" "(50::real) - 0 \<noteq> 0"
    by simp_all
  have k: "points ?k \<noteq> []" "mesh_bounds ?k = (0, 190, 0, 40, 0, 50)" "(40::real) - 0 \<noteq> 0"
    by simp_all
  from scale_factor_from_raw_y_extent [OF m] scale_factor_from_raw_y_extent [OF k]
  show ?thesis by (simp add: guess_orientation_def)
qed

section \<open>Selection of the alignment\<close>

text \<open>
  Claim C1 as stated fails. For a mesh with extents 50, 190, 40, here with colour and
  normal arrays, the anatomical score is not greater than the ultimate score and the
  selected alignment is not the anatomical one.
\<close>

theorem scenario_A_counterexample:
  "x_range (0, 50, 0, 190, 0, 40) = 50 \<and> y_range (0, 50, 0, 190, 0, 40) = 190
   \<and> z_range (0, 50, 0, 190, 0, 40) = 40
   \<and> (\<exists>c. analyze_ply_characteristics
            \<lparr>points = [(0, 0, 0), (50, 190, 40)], mesh_bounds = (0, 50, 0, 190, 0, 40),
             point_data = [(3, Some ''Colors''), (3, Some ''Normals'')]\<rparr> = Inr c
          \<and> \<not> anatomical_score (snd (select_optimal_method c))
                > ultimate_score (snd (select_optimal_method c))
          \<and> fst (select_optimal_method c) \<noteq> anatomical)"
proof -
  let ?b = "(0, 50, 0, 190, 0, 40) :: bounds6"
  let ?m = "\<lparr>points = [(0, 0, 0), (50, 190, 40)], mesh_bounds = ?b,
             point_data = [(3, Some ''Colors''), (3, Some ''Normals'')]\<rparr>"
  have r: "x_range ?b = 50" "y_range ?b = 190" "z_range ?b = 40" by simp_all
  note d = scenario_A_diagonal [OF r]
  have r': "x_range (mesh_bounds ?m) = 50" "y_range (mesh_bounds ?m) = 190"
    "z_range (mesh_bounds ?m) = 40" by simp_all
  obtain c where c: "analyze_ply_characteristics ?m = Inr c" "\<not> is_standard_face c"
    "max_aspect_ratio c = 4.75" "diagonal c = bounding_diagonal (mesh_bounds ?m)"
    using scenario_A_characteristics [OF r'] by blast
  have "max_aspect_ratio c > 3.0" "100 < diagonal c" "diagonal c < 300"
    using d c(3,4) by simp_all
  note s = select_scores_bound [OF c(2) this]
  have "\<not> anatomical_score (snd (select_optimal_method c))
           > ultimate_score (snd (select_optimal_method c))"
    using s(1,2) by linarith
  moreover have "fst (select_optimal_method c) \<noteq> anatomical"
    using s(3) by simp
  ultimately show ?thesis using c(1) r by blast
qed

text \<open>
  Claim C1, amended. For every mesh with extents width 50, height 190, depth 40 the
  orientation detector answers standard (when the mesh has a vertex). The scorer's own
  standard-face test also asks for a largest aspect ratio below 2.0, and here that ratio
  is 4.75: the mesh is not a standard face (ultimate +2) and has extreme proportions
  (ultimate +3). Whatever the number of vertices and the attribute arrays, the ultimate
  score is at least 5, the anatomical score at most 4, and ultimate is selected.
\<close>

theorem scenario_A_selects_ultimate:
  assumes "x_range (mesh_bounds mesh) = 50" "y_range (mesh_bounds mesh) = 190"
    "z_range (mesh_bounds mesh) = 40"
  shows "(points mesh \<noteq> [] \<longrightarrow>
            (\<exists>a. detect_anatomical_features (points mesh) (mesh_bounds mesh) = Inr a
                \<and> orientation_guess a = standard))
         \<and> (\<exists>c. analyze_ply_characteristics mesh = Inr c
                \<and> max_aspect_ratio c = 4.75
                \<and> \<not> is_standard_face c
                \<and> ultimate_score (snd (select_optimal_method c)) \<ge> 5
                \<and> anatomical_score (snd (select_optimal_method c)) \<le> 4
                \<and> fst (select_optimal_method c) = ultimate)"
proof -
  have g: "guess_orientation (x_range (mesh_bounds mesh)) (y_range (mesh_bounds mesh))
      (z_range (mesh_bounds mesh)) = (standard, Z_pos, Y_pos)"
    by (simp add: assms guess_orientation_def)
  have 1: "\<exists>a. detect_anatomical_features (points mesh) (mesh_bounds mesh) = Inr a
      \<and> orientation_guess a = standard" if "points mesh \<noteq> []"
    using detect_nonempty [OF that g] by blast
  note d = scenario_A_diagonal [OF assms]
  obtain c where c: "analyze_ply_characteristics mesh = Inr c" "\<not> is_standard_face c"
    "max_aspect_ratio c = 4.75" "diagonal c = bounding_diagonal (mesh_bounds mesh)"
    using scenario_A_characteristics [OF assms] by blast
  have "max_aspect_ratio c > 3.0" "100 < diagonal c" "diagonal c < 300"
    using d c(3,4) by simp_all
  note s = select_scores_bound [OF c(2) this]
  show ?thesis using 1 c(1,2,3) s by blast
qed

text \<open>
  Witness for the amended C1: a mesh of two vertices without attribute arrays.
\<close>

theorem scenario_A_selects_ultimate_witness:
  "\<exists>c. analyze_ply_characteristics
          \<lparr>points = [(0, 0, 0), (50, 190, 40)], mesh_bounds = (0, 50, 0, 190, 0, 40),
           point_data = []\<rparr> = Inr c
      \<and> fst (select_optimal_method c) = ultimate"
proof -
  let ?m = "\<lparr>points = [(0, 0, 0), (50, 190, 40)], mesh_bounds = (0, 50, 0, 190, 0, 40),
           point_data = []\<rparr>"
  have h: "x_range (mesh_bounds ?m) = 50" "y_range (mesh_bounds ?m) = 190"
    "z_range (mesh_bounds ?m) = 40"
    by simp_all
  from scenario_A_selects_ultimate [OF h] show ?thesis by blast
qed

section \<open>Acceptance, retry and the final decision\<close>

text \<open>
  Claim C2 as stated fails. A first error of 50 is below good_threshold (100.0), yet
  the ultimate test is run as well.
\<close>

theorem acceptance_threshold_counterexample:
  "(50::real) < good_threshold
   \<and> snd (test_single_file_hybrid
            \<lparr>anatomical_outcome = Succeeded 50, ultimate_outcome = Succeeded 70\<rparr>)
       = [anatomical, ultimate]
   \<and> ultimate_result (fst (test_single_file_hybrid
            \<lparr>anatomical_outcome = Succeeded 50, ultimate_outcome = Succeeded 70\<rparr>))
       = Some \<lparr>ransac_error = 70, status = very_good\<rparr>"
proof -
  have n: "\<not> (50::real) < excellent_threshold" by (simp add: excellent_threshold_def)
  show ?thesis
    by (simp add: hybrid_retried [OF n] determine_best_keeps record_outcome_def
        classify_performance_def good_threshold_def excellent_threshold_def)
qed

text \<open>
  Claim C2, amended. When the first (anatomical) attempt reports an error e, it is
  accepted without a second attempt iff e is below excellent_threshold (10.0); iff e is
  at or above excellent_threshold, exactly one further attempt is made, with the
  ultimate alignment.
\<close>

theorem first_attempt_acceptance:
  "(snd (test_single_file_hybrid \<lparr>anatomical_outcome = Succeeded e, ultimate_outcome = u\<rparr>)
      = [anatomical]) = (e < excellent_threshold)
   \<and> (snd (test_single_file_hybrid \<lparr>anatomical_outcome = Succeeded e, ultimate_outcome = u\<rparr>)
      = [anatomical, ultimate]) = (excellent_threshold \<le> e)
   \<and> (ultimate_result
        (fst (test_single_file_hybrid \<lparr>anatomical_outcome = Succeeded e, ultimate_outcome = u\<rparr>))
      = (if e < excellent_threshold then None else record_outcome u))
   \<and> excellent_threshold = 10 \<and> good_threshold = 100"
proof (cases "e < excellent_threshold")
  case True
  then show ?thesis
    by (simp add: hybrid_accepted excellent_threshold_def good_threshold_def)
next
  case False
  then show ?thesis
    by (simp add: hybrid_retried determine_best_keeps excellent_threshold_def
        good_threshold_def)
qed

text \<open>
  Claim C9. When both alignments were attempted and both reported an error, both
  results are kept in the record of the mesh, the best error is the smaller of the two
  and the best alignment is the one that reported it (the anatomical one on a tie).
  Both are attempted exactly when the first error is at least excellent_threshold.
\<close>

theorem both_attempts_retained:
  assumes "excellent_threshold \<le> e1"
  shows "snd (test_single_file_hybrid
              \<lparr>anatomical_outcome = Succeeded e1, ultimate_outcome = Succeeded e2\<rparr>)
           = [anatomical, ultimate]
         \<and> anatomical_result (fst (test_single_file_hybrid
              \<lparr>anatomical_outcome = Succeeded e1, ultimate_outcome = Succeeded e2\<rparr>))
           = Some \<lparr>ransac_error = e1, status = classify_performance e1\<rparr>
         \<and> ultimate_result (fst (test_single_file_hybrid
              \<lparr>anatomical_outcome = Succeeded e1, ultimate_outcome = Succeeded e2\<rparr>))
           = Some \<lparr>ransac_error = e2, status = classify_performance e2\<rparr>
         \<and> best_ransac (fst (test_single_file_hybrid
              \<lparr>anatomical_outcome = Succeeded e1, ultimate_outcome = Succeeded e2\<rparr>))
           = Some (min e1 e2)
         \<and> best_method (fst (test_single_file_hybrid
              \<lparr>anatomical_outcome = Succeeded e1, ultimate_outcome = Succeeded e2\<rparr>))
           = Some (if e1 \<le> e2 then anatomical else ultimate)"
proof -
  have n: "\<not> e1 < excellent_threshold" using assms by simp
  let ?r = "\<lparr>anatomical_result = Some \<lparr>ransac_error = e1, status = classify_performance e1\<rparr>,
          ultimate_result = record_outcome (Succeeded e2), best_method = None,
          best_ransac = None, best_performance = None, needs_optimization = False,
          recommendation = None\<rparr>"
  have a: "anatomical_result ?r = Some \<lparr>ransac_error = e1, status = classify_performance e1\<rparr>"
    by simp
  have u: "ultimate_result ?r = Some \<lparr>ransac_error = e2, status = classify_performance e2\<rparr>"
    by (simp add: record_outcome_def)
  show ?thesis
    using determine_best_both [OF a u] a u
    by (simp add: hybrid_retried [OF n] determine_best_keeps)
qed

text \<open>
  Witness for C9: a first error of 50000 leads to exactly one further attempt, and
  the final result is the better of the two.
\<close>

theorem both_attempts_retained_witness:
  "snd (test_single_file_hybrid
          \<lparr>anatomical_outcome = Succeeded 50000, ultimate_outcome = Succeeded 42\<rparr>)
     = [anatomical, ultimate]
   \<and> best_ransac (fst (test_single_file_hybrid
          \<lparr>anatomical_outcome = Succeeded 50000, ultimate_outcome = Succeeded 42\<rparr>))
     = Some 42
   \<and> best_method (fst (test_single_file_hybrid
          \<lparr>anatomical_outcome = Succeeded 50000, ultimate_outcome = Succeeded 42\<rparr>))
     = Some ultimate
   \<and> anatomical_result (fst (test_single_file_hybrid
          \<lparr>anatomical_outcome = Succeeded 50000, ultimate_outcome = Succeeded 42\<rparr>))
     = Some \<lparr>ransac_error = 50000, status = poor\<rparr>"
proof -
  have h: "excellent_threshold \<le> 50000" by (simp add: excellent_threshold_def)
  from both_attempts_retained [OF h, of 42] show ?thesis
    by (simp add: classify_performance_def excellent_threshold_def good_threshold_def
        poor_threshold_def)
qed

end
